theory Spec2Isabelle
  imports Main "HOL-Library.Sublist"
begin

section \<open>Python values used by \<open>utils/deployment.py\<close>\<close>

text \<open>
  Python strings are modelled as \<^typ>\<open>string\<close>.  An optional string (a value that is
  either \<open>None\<close> or a \<open>str\<close>) is a \<^typ>\<open>string option\<close>.  Python's truth test
  on such a value is false for \<open>None\<close> and for the empty string.
\<close>

definition truthy :: "string option \<Rightarrow> bool" where
  "truthy v = (case v of None \<Rightarrow> False | Some s \<Rightarrow> s \<noteq> [])"

text \<open>\<open>a or b\<close>: the first operand when it is truthy, the second one otherwise.\<close>

definition py_or :: "string option \<Rightarrow> string option \<Rightarrow> string option" where
  "py_or a b = (if truthy a then a else b)"

text \<open>
  \<open>str.isspace\<close> on the code points below 256, and \<open>str.strip()\<close> with no argument,
  which removes the leading and the trailing run of such characters.
\<close>

definition whitespace :: "char list" where
  "whitespace = [CHR 0x09, CHR 0x0A, CHR 0x0B, CHR 0x0C, CHR 0x0D,
                 CHR 0x1C, CHR 0x1D, CHR 0x1E, CHR 0x1F, CHR 0x20, CHR 0x85, CHR 0xA0]"

definition isspace :: "char \<Rightarrow> bool" where
  "isspace c = (c \<in> set whitespace)"

definition lstrip :: "string \<Rightarrow> string" where
  "lstrip s = dropWhile isspace s"

definition rstrip :: "string \<Rightarrow> string" where
  "rstrip s = rev (dropWhile isspace (rev s))"

definition strip :: "string \<Rightarrow> string" where
  "strip s = rstrip (lstrip s)"

text \<open>\<open>s.startswith(p)\<close> and \<open>s.endswith(p)\<close> for strings \<open>s\<close> and \<open>p\<close>.\<close>

definition startswith :: "string \<Rightarrow> string \<Rightarrow> bool" where
  "startswith s p = prefix p s"

definition endswith :: "string \<Rightarrow> string \<Rightarrow> bool" where
  "endswith s p = suffix p s"

text \<open>
  The exceptions that can travel through the script.  \<open>CalledProcessError\<close> carries
  the argument vector, the exit status, and the captured standard output and standard
  error.  \<open>RequestException\<close> stands for \<open>requests.exceptions.RequestException\<close> and all
  its subclasses; \<open>OSError\<close> and \<open>ValueError\<close> stand for those classes and their
  subclasses.  The last three carry the message that \<open>str(e)\<close> gives.
\<close>

datatype exn =
    CalledProcessError "string list" int string string
  | RequestException string
  | OSError string
  | ValueError string

section \<open>The operating system as seen by the script\<close>

text \<open>
  A directory as \<open>os.walk\<close> reads it: the names of its non-directory entries and its
  subdirectories, each with its own content.
\<close>

datatype dtree = Dir (files: "string list") (subdirs: "(string \<times> dtree) list")

text \<open>
  The part of the machine the script reads and writes outside of \<open>git\<close>: the environment
  variables, the directory trees, the permission bits and the text of files by path, the
  lines printed on standard output, and, for \<open>os.chmod\<close> and for \<open>open(path, "w")\<close>, the
  paths on which the system call is refused together with the error raised there.
\<close>

record os_state =
  environ :: "string \<rightharpoonup> string"
  listing :: "string \<rightharpoonup> dtree"
  perm :: "string \<rightharpoonup> nat"
  chmod_fault :: "string \<rightharpoonup> exn"
  file_text :: "string \<rightharpoonup> string"
  open_fault :: "string \<rightharpoonup> exn"
  console :: "string list"

definition os_getenv :: "string \<Rightarrow> os_state \<Rightarrow> string option" where
  "os_getenv name st = environ st name"

definition print_line :: "string \<Rightarrow> os_state \<Rightarrow> os_state" where
  "print_line s st = st\<lparr>console := console st @ [s]\<rparr>"

text \<open>
  \<open>os.path.join(a, b)\<close> of \<open>posixpath\<close>: an absolute \<open>b\<close> replaces \<open>a\<close>; otherwise \<open>b\<close>
  is appended, after a separator unless \<open>a\<close> is empty or already ends with one.
\<close>

definition os_path_join :: "string \<Rightarrow> string \<Rightarrow> string" where
  "os_path_join a b =
     (if startswith b ''/'' then b
      else if a = [] \<or> endswith a ''/'' then a @ b
      else a @ ''/'' @ b)"

section \<open>\<open>get_username\<close>\<close>

text \<open>\<^verbatim>\<open>return os.getenv("USERNAME") or os.getenv("USER")\<close>\<close>

definition get_username :: "os_state \<Rightarrow> string option" where
  "get_username st = py_or (os_getenv ''USERNAME'' st) (os_getenv ''USER'' st)"

section \<open>\<open>execute_command\<close>\<close>

text \<open>
  A finished child process: exit status, captured standard output and standard error
  (both text, as \<open>capture_output=True, text=True\<close> ask for).
\<close>

datatype completed = Completed (returncode: int) (stdout: string) (stderr: string)

text \<open>
  Starting a process and waiting for it is an operation of the outside world \<open>'w\<close>: given
  the argument vector it either raises (the program cannot be started) or gives a finished
  process, and it changes the world.
\<close>

type_synonym 'w spawn = "string list \<Rightarrow> 'w \<Rightarrow> (exn + completed) \<times> 'w"

text \<open>
  The state threaded through the commands: the outside world and the list of the argument
  vectors handed to \<open>subprocess.run\<close> so far, oldest first.
\<close>

record 'w proc_state =
  world :: 'w
  issued :: "string list list"

text \<open>
  \<open>subprocess.run(command, check=True, capture_output=True, text=True)\<close>: with
  \<open>check=True\<close> a non-zero exit status is raised as \<open>CalledProcessError\<close>.
\<close>

definition subprocess_run :: "'w spawn \<Rightarrow> string list \<Rightarrow> 'w proc_state \<Rightarrow> (exn + completed) \<times> 'w proc_state" where
  "subprocess_run spawn command s =
     (case spawn command (world s) of
        (r, w') \<Rightarrow>
          let s' = \<lparr>world = w', issued = issued s @ [command]\<rparr> in
          (case r of
             Inl e \<Rightarrow> (Inl e, s')
           | Inr p \<Rightarrow>
               if returncode p \<noteq> 0
               then (Inl (CalledProcessError command (returncode p) (stdout p) (stderr p)), s')
               else (Inr p, s')))"

text \<open>
  The dictionary \<open>execute_command\<close> returns: \<open>{"success": True, "output": ...}\<close> or
  \<open>{"success": False, "error": ...}\<close>.
\<close>

datatype cmd_result = Success (output_text: string) | Failure (error_text: string)

fun success :: "cmd_result \<Rightarrow> bool" where
  "success (Success _) = True"
| "success (Failure _) = False"

text \<open>
  \<open>execute_command\<close>.  Only \<open>CalledProcessError\<close> is caught; any other exception of
  \<open>subprocess.run\<close> leaves the function.  The text \<open>str(e)\<close> of the caught error is
  computed by the Python library and is a parameter here.
\<close>

definition execute_command ::
  "'w spawn \<Rightarrow> (exn \<Rightarrow> string) \<Rightarrow> string list \<Rightarrow> 'w proc_state \<Rightarrow> (exn + cmd_result) \<times> 'w proc_state" where
  "execute_command spawn str_of command s =
     (case subprocess_run spawn command s of
        (Inr result, s') \<Rightarrow> (Inr (Success (strip (stdout result))), s')
      | (Inl (CalledProcessError c rc out err), s') \<Rightarrow>
          (Inr (Failure (if err \<noteq> [] then strip err
                         else str_of (CalledProcessError c rc out err))), s')
      | (Inl e, s') \<Rightarrow> (Inl e, s'))"

section \<open>\<open>clone_or_update_repo\<close>\<close>

text \<open>
  The list \<open>logs\<close> is changed in place by the source; here the list after the call is
  returned, also when the call ends with an exception.  \<open>os.path.exists\<close> reads the same
  outside world as \<open>git\<close> changes and is a parameter.
\<close>

definition clone_or_update_repo ::
  "'w spawn \<Rightarrow> (exn \<Rightarrow> string) \<Rightarrow> (string \<Rightarrow> 'w \<Rightarrow> bool) \<Rightarrow>
   string \<Rightarrow> string \<Rightarrow> string option \<Rightarrow> string \<Rightarrow> string list \<Rightarrow> 'w proc_state \<Rightarrow>
   (exn + cmd_result) \<times> string list \<times> 'w proc_state" where
  "clone_or_update_repo spawn str_of path_exists repo_url branch commit_hash local_dir logs s =
     (let (logs1, r1, s1) =
            (if \<not> path_exists local_dir (world s)
             then (logs @ [''Cloning repository '' @ repo_url @ '' into '' @ local_dir],
                   execute_command spawn str_of
                     [''git'', ''clone'', ''-b'', branch, repo_url, local_dir] s)
             else (logs @ [''Repository already exists. Fetching latest changes.''],
                   execute_command spawn str_of [''git'', ''-C'', local_dir, ''fetch''] s))
      in case r1 of
           Inl e \<Rightarrow> (Inl e, logs1, s1)
         | Inr response \<Rightarrow>
             if \<not> success response then (Inr response, logs1, s1)
             else
               (case (if truthy commit_hash then commit_hash else None) of
                  Some h \<Rightarrow>
                    (let logs2 = logs1 @ [''Checking out specific commit '' @ h];
                         (r2, s2) = execute_command spawn str_of
                                      [''git'', ''-C'', local_dir, ''checkout'', h] s1
                     in (r2, logs2, s2))
                | None \<Rightarrow>
                    (let logs2 = logs1 @ [''Pulling latest commit from branch '' @ branch];
                         (r2, s2) = execute_command spawn str_of
                                      [''git'', ''-C'', local_dir, ''checkout'', branch] s1
                     in case r2 of
                          Inl e \<Rightarrow> (Inl e, logs2, s2)
                        | Inr response2 \<Rightarrow>
                            if success response2
                            then (let (r3, s3) = execute_command spawn str_of
                                      [''git'', ''-C'', local_dir, ''pull'', ''origin'', branch] s2
                                  in (r3, logs2, s3))
                            else (Inr response2, logs2, s2))))"

section \<open>\<open>set_permission_readonly\<close> and \<open>set_permission_full\<close>\<close>

text \<open>
  \<open>os.walk(top)\<close>, top-down and without following links: one triple
  \<open>(root, dirs, files)\<close> for the directory itself, then the triples of each subdirectory.
  A \<open>top\<close> that is not a readable directory gives no triple at all.
\<close>

fun walk :: "string \<Rightarrow> dtree \<Rightarrow> (string \<times> string list \<times> string list) list"
  and walk_subdirs :: "string \<Rightarrow> (string \<times> dtree) list \<Rightarrow> (string \<times> string list \<times> string list) list" where
  "walk top_dir (Dir fs ds) = (top_dir, map fst ds, fs) # walk_subdirs top_dir ds"
| "walk_subdirs top_dir [] = []"
| "walk_subdirs top_dir ((name, sub) # ds) =
     walk (os_path_join top_dir name) sub @ walk_subdirs top_dir ds"

definition os_walk :: "string \<Rightarrow> os_state \<Rightarrow> (string \<times> string list \<times> string list) list" where
  "os_walk top_dir st = (case listing st top_dir of None \<Rightarrow> [] | Some t \<Rightarrow> walk top_dir t)"

text \<open>\<open>os.chmod(path, mode)\<close>: raises where the system refuses, sets the bits otherwise.\<close>

definition os_chmod :: "string \<Rightarrow> nat \<Rightarrow> os_state \<Rightarrow> exn + os_state" where
  "os_chmod path mode st =
     (case chmod_fault st path of
        Some e \<Rightarrow> Inl e
      | None \<Rightarrow> Inr (st\<lparr>perm := (perm st)(path \<mapsto> mode)\<rparr>))"

text \<open>The octal literals \<open>0o444\<close> and \<open>0o777\<close>.\<close>

definition mode_0o444 :: nat where
  "mode_0o444 = 4 * 64 + 4 * 8 + 4"

definition mode_0o777 :: nat where
  "mode_0o777 = 7 * 64 + 7 * 8 + 7"

text \<open>The inner loop \<open>for file in files\<close> of \<open>set_permission_readonly\<close>.\<close>

fun readonly_files ::
  "string \<Rightarrow> string \<Rightarrow> string list \<Rightarrow> string list \<Rightarrow> os_state \<Rightarrow> (exn + unit) \<times> string list \<times> os_state" where
  "readonly_files root exclude_ext [] logs st = (Inr (), logs, st)"
| "readonly_files root exclude_ext (file # rest) logs st =
     (if \<not> endswith file exclude_ext
      then (let file_path = os_path_join root file in
            case os_chmod file_path mode_0o444 st of
              Inl e \<Rightarrow> (Inl e, logs, st)
            | Inr st' \<Rightarrow>
                readonly_files root exclude_ext rest
                  (logs @ [''Set '' @ file_path @ '' to read-only.'']) st')
      else readonly_files root exclude_ext rest logs st)"

text \<open>The outer loop \<open>for root, _, files in os.walk(local_dir)\<close>.\<close>

fun readonly_walk ::
  "string \<Rightarrow> (string \<times> string list \<times> string list) list \<Rightarrow> string list \<Rightarrow> os_state \<Rightarrow>
   (exn + unit) \<times> string list \<times> os_state" where
  "readonly_walk exclude_ext [] logs st = (Inr (), logs, st)"
| "readonly_walk exclude_ext ((root, _, fs) # rest) logs st =
     (case readonly_files root exclude_ext fs logs st of
        (Inl e, logs', st') \<Rightarrow> (Inl e, logs', st')
      | (Inr _, logs', st') \<Rightarrow> readonly_walk exclude_ext rest logs' st')"

definition set_permission_readonly ::
  "string \<Rightarrow> string \<Rightarrow> string list \<Rightarrow> os_state \<Rightarrow> (exn + unit) \<times> string list \<times> os_state" where
  "set_permission_readonly local_dir exclude_ext logs st =
     readonly_walk exclude_ext (os_walk local_dir st) logs st"

text \<open>The same two loops of \<open>set_permission_full\<close>.\<close>

fun full_files ::
  "string \<Rightarrow> string list \<Rightarrow> string list \<Rightarrow> os_state \<Rightarrow> (exn + unit) \<times> string list \<times> os_state" where
  "full_files root [] logs st = (Inr (), logs, st)"
| "full_files root (file # rest) logs st =
     (let file_path = os_path_join root file in
      case os_chmod file_path mode_0o777 st of
        Inl e \<Rightarrow> (Inl e, logs, st)
      | Inr st' \<Rightarrow>
          full_files root rest (logs @ [''Set '' @ file_path @ '' to full permission.'']) st')"

fun full_walk ::
  "(string \<times> string list \<times> string list) list \<Rightarrow> string list \<Rightarrow> os_state \<Rightarrow>
   (exn + unit) \<times> string list \<times> os_state" where
  "full_walk [] logs st = (Inr (), logs, st)"
| "full_walk ((root, _, fs) # rest) logs st =
     (case full_files root fs logs st of
        (Inl e, logs', st') \<Rightarrow> (Inl e, logs', st')
      | (Inr _, logs', st') \<Rightarrow> full_walk rest logs' st')"

definition set_permission_full ::
  "string \<Rightarrow> string list \<Rightarrow> os_state \<Rightarrow> (exn + unit) \<times> string list \<times> os_state" where
  "set_permission_full local_dir logs st = full_walk (os_walk local_dir st) logs st"

section \<open>\<open>create_env_file\<close>\<close>

text \<open>
  \<open>open(path, "w")\<close> raises where the system refuses and otherwise leaves an empty file
  at \<open>path\<close>; \<open>write\<close> adds text at the end of that file.
\<close>

definition open_w :: "string \<Rightarrow> os_state \<Rightarrow> exn + os_state" where
  "open_w path st =
     (case open_fault st path of
        Some e \<Rightarrow> Inl e
      | None \<Rightarrow> Inr (st\<lparr>file_text := (file_text st)(path \<mapsto> [])\<rparr>))"

definition file_write :: "string \<Rightarrow> string \<Rightarrow> os_state \<Rightarrow> os_state" where
  "file_write path s st =
     st\<lparr>file_text := (file_text st)(path \<mapsto>
          (case file_text st path of None \<Rightarrow> s | Some t \<Rightarrow> t @ s))\<rparr>"

text \<open>The line \<^verbatim>\<open>f"{key} = '{value}'\n"\<close> for string keys and string values.\<close>

definition env_line :: "string \<Rightarrow> string \<Rightarrow> string" where
  "env_line key val = key @ '' = '' @ [CHR 0x27] @ val @ [CHR 0x27, CHR 0x0A]"

text \<open>
  The dictionary \<open>env_config\<close> is the list of its items in the order \<open>items()\<close> gives
  them.
\<close>

definition create_env_file :: "string \<Rightarrow> (string \<times> string) list \<Rightarrow> os_state \<Rightarrow> (exn + unit) \<times> os_state" where
  "create_env_file local_dir env_config st =
     (let file_path = os_path_join local_dir ''.env'';
          st1 = print_line (''Creating .env file at '' @ file_path) st
      in case open_w file_path st1 of
           Inl e \<Rightarrow> (Inl e, st1)
         | Inr st2 \<Rightarrow>
             (Inr (), fold (\<lambda>(key, val). file_write file_path (env_line key val)) env_config st2))"

section \<open>\<open>deploy_repo\<close>\<close>

text \<open>
  What \<open>requests.post\<close> returns: the status code, and what \<open>response.json()\<close> will do,
  which is to raise or to give the decoded body.
\<close>

datatype 'j response = Response (status_code: int) (json_of: "exn + 'j")

text \<open>
  The request itself (\<open>post\<close>) and \<open>json.dumps(_, indent=4)\<close> (\<open>dumps\<close>) are parameters.
  The payload is the dictionary of the source, \<open>None\<close> being JSON's \<open>null\<close>.  The
  \<open>except\<close> clause catches \<open>RequestException\<close> raised anywhere in the \<open>try\<close> block and
  lets every other exception pass.
\<close>

definition deploy_repo ::
  "(string \<Rightarrow> (string \<times> string option) list \<Rightarrow> exn + 'j response) \<Rightarrow> ('j \<Rightarrow> string) \<Rightarrow>
   string option \<Rightarrow> string \<Rightarrow> string \<Rightarrow> string \<Rightarrow> string option \<Rightarrow> string \<Rightarrow> string \<Rightarrow>
   os_state \<Rightarrow> (exn + unit) \<times> os_state" where
  "deploy_repo post dumps username server_url repo_url branch commit_hash local_dir exclude_ext st =
     (let payload = [(''username'', username), (''repo_url'', Some repo_url),
                     (''branch'', Some branch), (''commit_hash'', commit_hash),
                     (''local_dir'', Some local_dir), (''exclude_ext'', Some exclude_ext)];
          attempt =
            (case post (server_url @ ''/deploy'') payload of
               Inl e \<Rightarrow> (Inl e, st)
             | Inr response \<Rightarrow>
                 (case json_of response of
                    Inl e \<Rightarrow> (Inl e, st)
                  | Inr response_data \<Rightarrow>
                      (let st1 = (if status_code response = 200
                                  then print_line ''Deployment successful!'' st
                                  else print_line ''Deployment failed!'' st)
                       in (Inr (), print_line (dumps response_data) st1))))
      in case attempt of
           (Inl (RequestException msg), st') \<Rightarrow> (Inr (), print_line (''Error: '' @ msg) st')
         | other \<Rightarrow> other)"

section \<open>Vocabulary of the properties\<close>

text \<open>The four argument vectors that \<open>clone_or_update_repo\<close> builds.\<close>

definition git_clone :: "string \<Rightarrow> string \<Rightarrow> string \<Rightarrow> string list" where
  "git_clone branch repo_url local_dir = [''git'', ''clone'', ''-b'', branch, repo_url, local_dir]"

definition git_fetch :: "string \<Rightarrow> string list" where
  "git_fetch local_dir = [''git'', ''-C'', local_dir, ''fetch'']"

definition git_checkout :: "string \<Rightarrow> string \<Rightarrow> string list" where
  "git_checkout local_dir ref = [''git'', ''-C'', local_dir, ''checkout'', ref]"

definition git_pull :: "string \<Rightarrow> string \<Rightarrow> string list" where
  "git_pull local_dir branch = [''git'', ''-C'', local_dir, ''pull'', ''origin'', branch]"

text \<open>The first command: a clone when the directory is absent, a fetch otherwise.\<close>

definition first_command :: "(string \<Rightarrow> 'w \<Rightarrow> bool) \<Rightarrow> string \<Rightarrow> string \<Rightarrow> string \<Rightarrow> 'w \<Rightarrow> string list" where
  "first_command path_exists repo_url branch local_dir w =
     (if \<not> path_exists local_dir w then git_clone branch repo_url local_dir
      else git_fetch local_dir)"

text \<open>A command succeeds when its process could be started and ended with status zero.\<close>

definition exit_ok :: "exn + completed \<Rightarrow> bool" where
  "exit_ok r = (case r of Inl _ \<Rightarrow> False | Inr p \<Rightarrow> returncode p = 0)"

text \<open>
  An outside world without state in which every command ends with the same status and
  the same output; used to run the functions on concrete inputs.
\<close>

definition always_exit :: "int \<Rightarrow> string \<Rightarrow> string \<Rightarrow> unit spawn" where
  "always_exit rc out err = (\<lambda>command w. (Inr (Completed rc out err), w))"

text \<open>
  A machine with one directory \<open>d\<close> that holds the files \<open>a.txt\<close> and \<open>b.ipynb\<close>, both
  with mode \<open>0o644\<close>, and on which no system call is refused.
\<close>

definition sample_os :: os_state where
  "sample_os = \<lparr>environ = Map.empty,
                 listing = [''d'' \<mapsto> Dir [''a.txt'', ''b.ipynb''] []],
                 perm = [''d/a.txt'' \<mapsto> 420, ''d/b.ipynb'' \<mapsto> 420],
                 chmod_fault = Map.empty,
                 file_text = Map.empty,
                 open_fault = Map.empty,
                 console = []\<rparr>"


section \<open>Properties of \<open>get_username\<close> and \<open>execute_command\<close>\<close>

lemmas git_defs = git_clone_def git_fetch_def git_checkout_def git_pull_def

text \<open>
  What \<open>strip\<close> does to a string: it cuts a run of whitespace characters off the front
  and another one off the back, and what is left neither begins nor ends with a whitespace
  character.
\<close>

lemma strip_decomposition:
  "s = takeWhile isspace s @ strip s @ rev (takeWhile isspace (rev (dropWhile isspace s)))"
proof -
  have "dropWhile isspace s
          = rev (dropWhile isspace (rev (dropWhile isspace s)))
            @ rev (takeWhile isspace (rev (dropWhile isspace s)))"
    by (metis rev_append rev_rev_ident takeWhile_dropWhile_id)
  then have "dropWhile isspace s
          = strip s @ rev (takeWhile isspace (rev (dropWhile isspace s)))"
    by (simp add: strip_def lstrip_def rstrip_def)
  then show ?thesis
    by (metis takeWhile_dropWhile_id)
qed

lemma strip_last:
  assumes "strip s \<noteq> []"
  shows "\<not> isspace (last (strip s))"
proof -
  let ?u = "dropWhile isspace (rev (dropWhile isspace s))"
  have ne: "?u \<noteq> []"
    using assms by (simp add: strip_def lstrip_def rstrip_def)
  have "last (strip s) = hd ?u"
    using ne by (simp add: strip_def lstrip_def rstrip_def last_rev)
  then show ?thesis
    using ne by (simp add: hd_dropWhile)
qed

lemma strip_hd:
  assumes "strip s \<noteq> []"
  shows "\<not> isspace (hd (strip s))"
proof -
  let ?u = "dropWhile isspace s"
  have dec: "?u = strip s @ rev (takeWhile isspace (rev ?u))"
    using strip_decomposition[of s] by (metis same_append_eq takeWhile_dropWhile_id)
  have "?u = [] \<Longrightarrow> strip s = []"
    by (simp add: strip_def lstrip_def rstrip_def del: dropWhile_eq_Nil_conv)
  then have ne: "?u \<noteq> []"
    using assms by blast
  have "hd ?u = hd (strip s)"
    using assms dec by (metis hd_append2)
  then show ?thesis
    using ne hd_dropWhile[of isspace s] by simp
qed

lemma strip_trims:
  "\<exists>lead trail. s = lead @ strip s @ trail
      \<and> (\<forall>c \<in> set lead. isspace c) \<and> (\<forall>c \<in> set trail. isspace c)
      \<and> (strip s \<noteq> [] \<longrightarrow> \<not> isspace (hd (strip s)) \<and> \<not> isspace (last (strip s)))"
proof -
  have "\<forall>c \<in> set (takeWhile isspace s). isspace c"
    by (auto dest: set_takeWhileD)
  moreover have "\<forall>c \<in> set (rev (takeWhile isspace (rev (dropWhile isspace s)))). isspace c"
    by (auto dest: set_takeWhileD)
  ultimately show ?thesis
    using strip_decomposition[of s] strip_hd[of s] strip_last[of s] by blast
qed

lemma isspace_iff:
  "isspace c \<longleftrightarrow> c \<in> {CHR 0x09, CHR 0x0A, CHR 0x0B, CHR 0x0C, CHR 0x0D,
                 CHR 0x1C, CHR 0x1D, CHR 0x1E, CHR 0x1F, CHR 0x20, CHR 0x85, CHR 0xA0}"
  by (simp add: isspace_def whitespace_def)

text \<open>
  Claim C10.  \<open>get_username\<close> returns the value of \<open>USERNAME\<close> exactly when that
  variable is set and not empty; when it is unset or set to the empty string the result
  is whatever \<open>USER\<close> holds, which is \<open>None\<close> when \<open>USER\<close> is absent.
\<close>

theorem get_username_fallback:
  "get_username st =
     (if environ st ''USERNAME'' \<noteq> None \<and> environ st ''USERNAME'' \<noteq> Some []
      then environ st ''USERNAME'' else environ st ''USER'')"
  by (simp add: get_username_def py_or_def truthy_def os_getenv_def split: option.splits)

theorem get_username_fallback_witness:
  "get_username \<lparr>environ = [''USERNAME'' \<mapsto> [], ''USER'' \<mapsto> ''deploy''], listing = Map.empty,
       perm = Map.empty, chmod_fault = Map.empty, file_text = Map.empty,
       open_fault = Map.empty, console = []\<rparr> = Some ''deploy''"
  using get_username_fallback[of "\<lparr>environ = [''USERNAME'' \<mapsto> [], ''USER'' \<mapsto> ''deploy''],
       listing = Map.empty, perm = Map.empty, chmod_fault = Map.empty, file_text = Map.empty,
       open_fault = Map.empty, console = []\<rparr>"]
  by simp

text \<open>
  Claim C5.  When the process of a command ends, \<open>execute_command\<close> returns a success
  record with the trimmed standard output if the exit status is zero, and otherwise a
  failure record with the trimmed standard error, or with the string form of the error when
  the standard error is the empty string.  The trimmed text is the captured text without a
  leading and without a trailing run of whitespace characters: the captured text is the
  trimmed text between two runs of whitespace characters, and the trimmed text, unless it
  is empty, neither begins nor ends with a whitespace character.
\<close>

theorem execute_command_result:
  assumes "spawn command (world s) = (Inr (Completed rc out err), w')"
  shows "\<exists>text lead trail.
           fst (execute_command spawn str_of command s) =
             Inr (if rc = 0 then Success text
                  else Failure (if err \<noteq> [] then text
                                else str_of (CalledProcessError command rc out err)))
         \<and> text = strip (if rc = 0 then out else err)
         \<and> (if rc = 0 then out else err) = lead @ text @ trail
         \<and> (\<forall>c \<in> set lead. c \<in> set whitespace)
         \<and> (\<forall>c \<in> set trail. c \<in> set whitespace)
         \<and> (text \<noteq> [] \<longrightarrow> hd text \<notin> set whitespace \<and> last text \<notin> set whitespace)"
proof -
  let ?src = "if rc = 0 then out else err"
  have res: "fst (execute_command spawn str_of command s) =
             Inr (if rc = 0 then Success (strip ?src)
                  else Failure (if err \<noteq> [] then strip ?src
                                else str_of (CalledProcessError command rc out err)))"
    using assms by (simp add: execute_command_def subprocess_run_def Let_def)
  obtain lead trail where "?src = lead @ strip ?src @ trail"
      "\<forall>c \<in> set lead. isspace c" "\<forall>c \<in> set trail. isspace c"
      "strip ?src \<noteq> [] \<longrightarrow> \<not> isspace (hd (strip ?src)) \<and> \<not> isspace (last (strip ?src))"
    using strip_trims[of ?src] by blast
  with res show ?thesis
    unfolding isspace_def by blast
qed

theorem execute_command_result_witness:
  "fst (execute_command
          (always_exit 0 ([CHR 0x20, CHR 0x09, CHR 0x0A] @ ''Already up to date.'' @ [CHR 0x0D, CHR 0x0A, CHR 0x20]) [])
          (\<lambda>e. ''err'') [''git'', ''fetch''] \<lparr>world = (), issued = []\<rparr>)
     = Inr (Success ''Already up to date.'')
 \<and> fst (execute_command
          (always_exit 128 [] ([CHR 0x0A, CHR 0x20] @ ''fatal: not a git repository'' @ [CHR 0x20, CHR 0x20, CHR 0x0A]))
          (\<lambda>e. ''err'') [''git'', ''fetch''] \<lparr>world = (), issued = []\<rparr>)
     = Inr (Failure ''fatal: not a git repository'')
 \<and> fst (execute_command (always_exit 1 ''  out  '' []) (\<lambda>e. ''Command returned non-zero exit status 1.'')
          [''git'', ''fetch''] \<lparr>world = (), issued = []\<rparr>)
     = Inr (Failure ''Command returned non-zero exit status 1.'')"
proof -
  let ?out = "[CHR 0x20, CHR 0x09, CHR 0x0A] @ ''Already up to date.'' @ [CHR 0x0D, CHR 0x0A, CHR 0x20]"
  let ?err = "[CHR 0x0A, CHR 0x20] @ ''fatal: not a git repository'' @ [CHR 0x20, CHR 0x20, CHR 0x0A]"
  let ?s = "\<lparr>world = (), issued = []\<rparr>"
  have h0: "always_exit 0 ?out [] [''git'', ''fetch''] (world ?s) = (Inr (Completed 0 ?out []), ())"
    by (simp add: always_exit_def)
  have h1: "always_exit 128 [] ?err [''git'', ''fetch''] (world ?s) = (Inr (Completed 128 [] ?err), ())"
    by (simp add: always_exit_def)
  have h2: "always_exit 1 ''  out  '' [] [''git'', ''fetch''] (world ?s) = (Inr (Completed 1 ''  out  '' []), ())"
    by (simp add: always_exit_def)
  have a: "fst (execute_command (always_exit 0 ?out []) (\<lambda>e. ''err'') [''git'', ''fetch''] ?s)
             = Inr (Success ''Already up to date.'')"
    using execute_command_result[where spawn="always_exit 0 ?out []" and s="?s"
            and str_of="\<lambda>e. ''err''", OF h0]
    by (simp add: strip_def lstrip_def rstrip_def isspace_def whitespace_def)
  have b: "fst (execute_command (always_exit 128 [] ?err) (\<lambda>e. ''err'') [''git'', ''fetch''] ?s)
             = Inr (Failure ''fatal: not a git repository'')"
    using execute_command_result[where spawn="always_exit 128 [] ?err" and s="?s"
            and str_of="\<lambda>e. ''err''", OF h1]
    by (simp add: strip_def lstrip_def rstrip_def isspace_def whitespace_def)
  have c: "fst (execute_command (always_exit 1 ''  out  '' []) (\<lambda>e. ''Command returned non-zero exit status 1.'')
                  [''git'', ''fetch''] ?s)
             = Inr (Failure ''Command returned non-zero exit status 1.'')"
    using execute_command_result[where spawn="always_exit 1 ''  out  '' []" and s="?s"
            and str_of="\<lambda>e. ''Command returned non-zero exit status 1.''", OF h2]
    by simp
  show ?thesis
    using a b c by simp
qed

section \<open>Properties of \<open>clone_or_update_repo\<close>\<close>

text \<open>
  Every call of \<open>execute_command\<close> records its command and ends in one of three ways:
  a success record, a failure record, or an exception that is not caught.
\<close>

lemma execute_command_cases:
  obtains (ok) out where "exit_ok (fst (spawn command (world s)))"
      "execute_command spawn str_of command s =
         (Inr (Success out), \<lparr>world = snd (spawn command (world s)), issued = issued s @ [command]\<rparr>)"
  | (fail) msg where "\<not> exit_ok (fst (spawn command (world s)))"
      "execute_command spawn str_of command s =
         (Inr (Failure msg), \<lparr>world = snd (spawn command (world s)), issued = issued s @ [command]\<rparr>)"
  | (raised) e where "\<not> exit_ok (fst (spawn command (world s)))"
      "execute_command spawn str_of command s =
         (Inl e, \<lparr>world = snd (spawn command (world s)), issued = issued s @ [command]\<rparr>)"
proof (cases "spawn command (world s)")
  case (Pair r w')
  show thesis
  proof (cases r)
    case (Inl e)
    with Pair raised[of e] fail show thesis
      by (cases e) (simp_all add: execute_command_def subprocess_run_def exit_ok_def)
  next
    case (Inr p)
    with Pair ok fail show thesis
      by (cases p) (auto simp add: execute_command_def subprocess_run_def exit_ok_def)
  qed
qed


lemma execute_command_exited:
  assumes "spawn command (world s) = (Inr (Completed rc out err), w')"
  shows "execute_command spawn str_of command s =
           (Inr (if rc = 0 then Success (strip out)
                 else Failure (if err \<noteq> [] then strip err
                               else str_of (CalledProcessError command rc out err))),
            \<lparr>world = w', issued = issued s @ [command]\<rparr>)"
  using assms by (simp add: execute_command_def subprocess_run_def Let_def)

text \<open>
  The commands issued by \<open>clone_or_update_repo\<close> when the directory is absent, and
  when it is present.
\<close>

lemma issued_when_absent:
  assumes pe: "\<not> path_exists local_dir (world s)"
  shows "issued (snd (snd (clone_or_update_repo spawn str_of path_exists repo_url branch
                             commit_hash local_dir logs s))) =
         issued s @ git_clone branch repo_url local_dir #
           (if exit_ok (fst (spawn (git_clone branch repo_url local_dir) (world s)))
            then (case (if truthy commit_hash then commit_hash else None) of
                    Some h \<Rightarrow> [git_checkout local_dir h]
                  | None \<Rightarrow>
                      git_checkout local_dir branch #
                        (if exit_ok (fst (spawn (git_checkout local_dir branch)
                                            (snd (spawn (git_clone branch repo_url local_dir) (world s)))))
                         then [git_pull local_dir branch] else []))
            else [])"
proof -
  let ?c1 = "git_clone branch repo_url local_dir"
  let ?s1 = "\<lparr>world = snd (spawn ?c1 (world s)), issued = issued s @ [?c1]\<rparr>"
  note unfold = clone_or_update_repo_def git_defs
  show ?thesis
  proof (cases rule: execute_command_cases[of spawn ?c1 s str_of])
    case first: (ok out)
    show ?thesis
    proof (cases "truthy commit_hash")
      case True
      then obtain h where h: "commit_hash = Some h"
        by (auto simp: truthy_def split: option.splits)
      show ?thesis
        by (cases rule: execute_command_cases[of spawn "git_checkout local_dir h" ?s1 str_of])
           (use pe first True h in \<open>simp_all add: unfold\<close>)
    next
      case False
      let ?c2 = "git_checkout local_dir branch"
      let ?s2 = "\<lparr>world = snd (spawn ?c2 (world ?s1)), issued = issued ?s1 @ [?c2]\<rparr>"
      show ?thesis
      proof (cases rule: execute_command_cases[of spawn ?c2 ?s1 str_of])
        case second: (ok out2)
        show ?thesis
          by (cases rule: execute_command_cases[of spawn "git_pull local_dir branch" ?s2 str_of])
             (use pe first second False in \<open>simp_all add: unfold\<close>)
      next
        case (fail msg)
        with pe first False show ?thesis by (simp add: unfold)
      next
        case (raised e)
        with pe first False show ?thesis by (simp add: unfold)
      qed
    qed
  next
    case (fail msg)
    with pe show ?thesis by (simp add: unfold)
  next
    case (raised e)
    with pe show ?thesis by (simp add: unfold)
  qed
qed

lemma issued_when_present:
  assumes pe: "path_exists local_dir (world s)"
  shows "issued (snd (snd (clone_or_update_repo spawn str_of path_exists repo_url branch
                             commit_hash local_dir logs s))) =
         issued s @ git_fetch local_dir #
           (if exit_ok (fst (spawn (git_fetch local_dir) (world s)))
            then (case (if truthy commit_hash then commit_hash else None) of
                    Some h \<Rightarrow> [git_checkout local_dir h]
                  | None \<Rightarrow>
                      git_checkout local_dir branch #
                        (if exit_ok (fst (spawn (git_checkout local_dir branch)
                                            (snd (spawn (git_fetch local_dir) (world s)))))
                         then [git_pull local_dir branch] else []))
            else [])"
proof -
  let ?c1 = "git_fetch local_dir"
  let ?s1 = "\<lparr>world = snd (spawn ?c1 (world s)), issued = issued s @ [?c1]\<rparr>"
  note unfold = clone_or_update_repo_def git_defs
  show ?thesis
  proof (cases rule: execute_command_cases[of spawn ?c1 s str_of])
    case first: (ok out)
    show ?thesis
    proof (cases "truthy commit_hash")
      case True
      then obtain h where h: "commit_hash = Some h"
        by (auto simp: truthy_def split: option.splits)
      show ?thesis
        by (cases rule: execute_command_cases[of spawn "git_checkout local_dir h" ?s1 str_of])
           (use pe first True h in \<open>simp_all add: unfold\<close>)
    next
      case False
      let ?c2 = "git_checkout local_dir branch"
      let ?s2 = "\<lparr>world = snd (spawn ?c2 (world ?s1)), issued = issued ?s1 @ [?c2]\<rparr>"
      show ?thesis
      proof (cases rule: execute_command_cases[of spawn ?c2 ?s1 str_of])
        case second: (ok out2)
        show ?thesis
          by (cases rule: execute_command_cases[of spawn "git_pull local_dir branch" ?s2 str_of])
             (use pe first second False in \<open>simp_all add: unfold\<close>)
      next
        case (fail msg)
        with pe first False show ?thesis by (simp add: unfold)
      next
        case (raised e)
        with pe first False show ?thesis by (simp add: unfold)
      qed
    qed
  next
    case (fail msg)
    with pe show ?thesis by (simp add: unfold)
  next
    case (raised e)
    with pe show ?thesis by (simp add: unfold)
  qed
qed

text \<open>
  Claim C1, as amended.  When the local directory does not exist, the first command is
  \<open>git clone\<close> with the given branch, URL and directory, and no \<open>fetch\<close> is issued.
  Nothing follows a clone that fails.  After a clone that succeeds the function goes on:
  with a non-empty commit hash it checks that commit out; without one it checks the branch
  out and, if that succeeds, pulls the branch from \<open>origin\<close>.
\<close>

theorem clone_when_absent:
  assumes "\<not> path_exists local_dir (world s)"
  shows "issued (snd (snd (clone_or_update_repo spawn str_of path_exists repo_url branch
                             commit_hash local_dir logs s))) =
         issued s @ git_clone branch repo_url local_dir #
           (if exit_ok (fst (spawn (git_clone branch repo_url local_dir) (world s)))
            then (case (if truthy commit_hash then commit_hash else None) of
                    Some h \<Rightarrow> [git_checkout local_dir h]
                  | None \<Rightarrow>
                      git_checkout local_dir branch #
                        (if exit_ok (fst (spawn (git_checkout local_dir branch)
                               (snd (spawn (git_clone branch repo_url local_dir) (world s)))))
                         then [git_pull local_dir branch] else []))
            else [])
       \<and> (\<forall>d. git_fetch d \<notin> set (drop (length (issued s))
                (issued (snd (snd (clone_or_update_repo spawn str_of path_exists repo_url branch
                             commit_hash local_dir logs s))))))"
  using assms issued_when_absent[where path_exists=path_exists and local_dir=local_dir and s=s
          and spawn=spawn and str_of=str_of and repo_url=repo_url and branch=branch
          and commit_hash=commit_hash and logs=logs]
  by (auto simp: git_defs split: option.splits)

theorem clone_when_absent_witness:
  "issued (snd (snd (clone_or_update_repo (always_exit 0 ''done'' []) (\<lambda>e. ''err'') (\<lambda>p w. False)
       ''https://example.org/r.git'' ''main'' (Some ''abc123'') ''/srv/app'' []
       \<lparr>world = (), issued = []\<rparr>))) =
   [[''git'', ''clone'', ''-b'', ''main'', ''https://example.org/r.git'', ''/srv/app''],
    [''git'', ''-C'', ''/srv/app'', ''checkout'', ''abc123'']]"
proof -
  have h: "\<not> (\<lambda>p w. False) ''/srv/app'' (world \<lparr>world = (), issued = []\<rparr>)" by simp
  show ?thesis
    using h clone_when_absent[where path_exists="\<lambda>p w. False" and local_dir="''/srv/app''"
            and s="\<lparr>world = (), issued = []\<rparr>" and spawn="always_exit 0 ''done'' []"
            and str_of="\<lambda>e. ''err''" and repo_url="''https://example.org/r.git''"
            and branch="''main''" and commit_hash="Some ''abc123''" and logs="[]"]
    by (simp add: always_exit_def exit_ok_def truthy_def git_defs)
qed

text \<open>
  Claim C1 as stated says that the clone is the only command.  With an absent directory,
  no commit hash and commands that all succeed, a checkout and a pull follow the clone.
\<close>

theorem clone_only_counterexample:
  "\<not> (\<lambda>p w. False) ''/srv/app'' (world \<lparr>world = (), issued = []\<rparr>) \<and>
   issued (snd (snd (clone_or_update_repo (always_exit 0 ''done'' []) (\<lambda>e. ''err'') (\<lambda>p w. False)
       ''https://example.org/r.git'' ''main'' None ''/srv/app'' []
       \<lparr>world = (), issued = []\<rparr>))) =
   [[''git'', ''clone'', ''-b'', ''main'', ''https://example.org/r.git'', ''/srv/app''],
    [''git'', ''-C'', ''/srv/app'', ''checkout'', ''main''],
    [''git'', ''-C'', ''/srv/app'', ''pull'', ''origin'', ''main'']]"
  by (simp add: clone_or_update_repo_def execute_command_def subprocess_run_def always_exit_def
        truthy_def)

text \<open>
  Claim C2.  When the local directory exists, no commit hash is given (\<open>None\<close> or the
  empty string) and the fetch and the checkout succeed, the commands issued are, in this
  order, \<open>git fetch\<close> in the directory, \<open>git checkout\<close> of the branch and \<open>git pull\<close> of
  the branch from \<open>origin\<close>.
\<close>

theorem update_without_commit:
  assumes "path_exists local_dir (world s)"
      and "\<not> truthy commit_hash"
      and "spawn (git_fetch local_dir) (world s) = (Inr (Completed 0 out1 err1), w1)"
      and "spawn (git_checkout local_dir branch) w1 = (Inr (Completed 0 out2 err2), w2)"
  shows "issued (snd (snd (clone_or_update_repo spawn str_of path_exists repo_url branch
                             commit_hash local_dir logs s))) =
         issued s @ [git_fetch local_dir, git_checkout local_dir branch,
                     git_pull local_dir branch]"
  using assms issued_when_present[where path_exists=path_exists and local_dir=local_dir and s=s
          and spawn=spawn and str_of=str_of and repo_url=repo_url and branch=branch
          and commit_hash=commit_hash and logs=logs]
  by (simp add: exit_ok_def)

theorem update_without_commit_witness:
  "issued (snd (snd (clone_or_update_repo (always_exit 0 ''done'' []) (\<lambda>e. ''err'') (\<lambda>p w. True)
       ''https://example.org/r.git'' ''main'' None ''/srv/app'' []
       \<lparr>world = (), issued = []\<rparr>))) =
   [[''git'', ''-C'', ''/srv/app'', ''fetch''],
    [''git'', ''-C'', ''/srv/app'', ''checkout'', ''main''],
    [''git'', ''-C'', ''/srv/app'', ''pull'', ''origin'', ''main'']]"
proof -
  have h1: "(\<lambda>p w. True) ''/srv/app'' (world \<lparr>world = (), issued = []\<rparr>)" by simp
  have h2: "\<not> truthy None" by (simp add: truthy_def)
  have h3: "always_exit 0 ''done'' [] (git_fetch ''/srv/app'') (world \<lparr>world = (), issued = []\<rparr>)
              = (Inr (Completed 0 ''done'' []), ())"
    by (simp add: always_exit_def)
  have h4: "always_exit 0 ''done'' [] (git_checkout ''/srv/app'' ''main'') ()
              = (Inr (Completed 0 ''done'' []), ())"
    by (simp add: always_exit_def)
  show ?thesis
    using update_without_commit[where path_exists="\<lambda>p w. True", OF h1 h2 h3 h4,
            where str_of="\<lambda>e. ''err''" and repo_url="''https://example.org/r.git''" and logs="[]"]
    by (simp add: git_defs)
qed

text \<open>
  Claim C3.  When the first command (the clone or the fetch) ends with a non-zero status,
  \<open>clone_or_update_repo\<close> returns the failure record that \<open>execute_command\<close> gave for
  that command, as it is, and the first command is the only one issued.
\<close>

theorem first_failure_returned:
  assumes "spawn (first_command path_exists repo_url branch local_dir (world s)) (world s)
             = (Inr (Completed rc out err), w1)"
      and "rc \<noteq> 0"
  shows "fst (clone_or_update_repo spawn str_of path_exists repo_url branch commit_hash
                local_dir logs s)
           = fst (execute_command spawn str_of
                    (first_command path_exists repo_url branch local_dir (world s)) s)
       \<and> fst (clone_or_update_repo spawn str_of path_exists repo_url branch commit_hash
                local_dir logs s)
           = Inr (Failure (if err \<noteq> [] then strip err
                           else str_of (CalledProcessError
                                  (first_command path_exists repo_url branch local_dir (world s))
                                  rc out err)))
       \<and> issued (snd (snd (clone_or_update_repo spawn str_of path_exists repo_url branch
                              commit_hash local_dir logs s)))
           = issued s @ [first_command path_exists repo_url branch local_dir (world s)]"
proof (cases "path_exists local_dir (world s)")
  case True
  with assms have sp: "spawn [''git'', ''-C'', local_dir, ''fetch''] (world s) = (Inr (Completed rc out err), w1)"
    by (simp add: first_command_def git_defs)
  show ?thesis
    using True assms(2) execute_command_exited[where spawn=spawn and s=s and str_of=str_of, OF sp]
    by (simp add: clone_or_update_repo_def first_command_def git_defs)
next
  case False
  with assms have sp: "spawn [''git'', ''clone'', ''-b'', branch, repo_url, local_dir] (world s)
                         = (Inr (Completed rc out err), w1)"
    by (simp add: first_command_def git_defs)
  show ?thesis
    using False assms(2) execute_command_exited[where spawn=spawn and s=s and str_of=str_of, OF sp]
    by (simp add: clone_or_update_repo_def first_command_def git_defs)
qed

theorem first_failure_returned_witness:
  "clone_or_update_repo (always_exit 1 [] ''fatal: unable to access'') (\<lambda>e. ''err'') (\<lambda>p w. True)
       ''https://example.org/r.git'' ''main'' None ''/srv/app'' [] \<lparr>world = (), issued = []\<rparr>
   = (Inr (Failure ''fatal: unable to access''),
      [''Repository already exists. Fetching latest changes.''],
      \<lparr>world = (), issued = [[''git'', ''-C'', ''/srv/app'', ''fetch'']]\<rparr>)"
proof -
  have h1: "always_exit 1 [] ''fatal: unable to access''
              (first_command (\<lambda>p w. True) ''https://example.org/r.git'' ''main'' ''/srv/app''
                 (world \<lparr>world = (), issued = []\<rparr>))
              (world \<lparr>world = (), issued = []\<rparr>)
            = (Inr (Completed 1 [] ''fatal: unable to access''), ())"
    by (simp add: always_exit_def)
  have h2: "(1::int) \<noteq> 0" by simp
  have r: "fst (snd (clone_or_update_repo (always_exit 1 [] ''fatal: unable to access'') (\<lambda>e. ''err'') (\<lambda>p w. True)
       ''https://example.org/r.git'' ''main'' None ''/srv/app'' [] \<lparr>world = (), issued = []\<rparr>))
       = [''Repository already exists. Fetching latest changes.'']"
    by (simp add: clone_or_update_repo_def execute_command_def subprocess_run_def always_exit_def)
  show ?thesis
    using r first_failure_returned[where spawn="always_exit 1 [] ''fatal: unable to access''"
            and path_exists="\<lambda>p w. True" and s="\<lparr>world = (), issued = []\<rparr>", OF h1 h2,
            where str_of="\<lambda>e. ''err''" and commit_hash=None and logs="[]"]
    by (simp add: first_command_def git_defs strip_def lstrip_def rstrip_def isspace_def
          whitespace_def prod_eq_iff execute_command_def subprocess_run_def always_exit_def)
qed

text \<open>
  Claim C4.  When the local directory exists and a commit hash (a non-empty string) is
  given, the commands issued are \<open>git fetch\<close> and then, if the fetch succeeded,
  \<open>git checkout\<close> of exactly that hash; no \<open>git pull\<close> is issued.
\<close>

theorem update_with_commit:
  assumes "path_exists local_dir (world s)"
      and "commit_hash = Some h" and "h \<noteq> []"
  shows "issued (snd (snd (clone_or_update_repo spawn str_of path_exists repo_url branch
                             commit_hash local_dir logs s))) =
         issued s @ git_fetch local_dir #
           (if exit_ok (fst (spawn (git_fetch local_dir) (world s)))
            then [git_checkout local_dir h] else [])
       \<and> (\<forall>d b. git_pull d b \<notin> set (drop (length (issued s))
                (issued (snd (snd (clone_or_update_repo spawn str_of path_exists repo_url branch
                             commit_hash local_dir logs s))))))"
  using assms issued_when_present[where path_exists=path_exists and local_dir=local_dir and s=s
          and spawn=spawn and str_of=str_of and repo_url=repo_url and branch=branch
          and commit_hash=commit_hash and logs=logs]
  by (auto simp: git_defs truthy_def)

theorem update_with_commit_witness:
  "issued (snd (snd (clone_or_update_repo (always_exit 0 ''done'' []) (\<lambda>e. ''err'') (\<lambda>p w. True)
       ''https://example.org/r.git'' ''main'' (Some ''abc123'') ''/srv/app'' []
       \<lparr>world = (), issued = []\<rparr>))) =
   [[''git'', ''-C'', ''/srv/app'', ''fetch''],
    [''git'', ''-C'', ''/srv/app'', ''checkout'', ''abc123'']]"
proof -
  have h1: "(\<lambda>p w. True) ''/srv/app'' (world \<lparr>world = (), issued = []\<rparr>)" by simp
  have h2: "Some ''abc123'' = Some ''abc123''" by simp
  have h3: "''abc123'' \<noteq> []" by simp
  show ?thesis
    using update_with_commit[where path_exists="\<lambda>p w. True", OF h1 h2 h3,
            where spawn="always_exit 0 ''done'' []" and str_of="\<lambda>e. ''err''"
              and repo_url="''https://example.org/r.git''" and branch="''main''" and logs="[]"]
    by (simp add: git_defs always_exit_def exit_ok_def)
qed

section \<open>The log is only appended to\<close>

lemma readonly_files_prefix:
  "prefix logs (fst (snd (readonly_files root exclude_ext fs logs st)))"
proof (induction fs arbitrary: logs st)
  case Nil
  show ?case by simp
next
  case (Cons f fs)
  show ?case
  proof (cases "endswith f exclude_ext")
    case True
    with Cons.IH show ?thesis by simp
  next
    case False
    show ?thesis
    proof (cases "os_chmod (os_path_join root f) mode_0o444 st")
      case (Inl e)
      with False show ?thesis by simp
    next
      case (Inr st')
      have "prefix (logs @ [''Set '' @ os_path_join root f @ '' to read-only.''])
              (fst (snd (readonly_files root exclude_ext fs
                 (logs @ [''Set '' @ os_path_join root f @ '' to read-only.'']) st')))"
        by (rule Cons.IH)
      then have "prefix logs (fst (snd (readonly_files root exclude_ext fs
                 (logs @ [''Set '' @ os_path_join root f @ '' to read-only.'']) st')))"
        by (rule append_prefixD)
      with False Inr show ?thesis by (simp add: Let_def)
    qed
  qed
qed

lemma readonly_walk_prefix:
  "prefix logs (fst (snd (readonly_walk exclude_ext entries logs st)))"
proof (induction entries arbitrary: logs st)
  case Nil
  show ?case by simp
next
  case (Cons entry entries)
  obtain root ds fs where entry: "entry = (root, ds, fs)" by (cases entry) auto
  obtain r logs' st' where step: "readonly_files root exclude_ext fs logs st = (r, logs', st')"
    by (cases "readonly_files root exclude_ext fs logs st") auto
  have p1: "prefix logs logs'"
    using readonly_files_prefix[of logs root exclude_ext fs st] step by simp
  show ?case
  proof (cases r)
    case (Inl e)
    with entry step p1 show ?thesis by simp
  next
    case (Inr u)
    have "prefix logs' (fst (snd (readonly_walk exclude_ext entries logs' st')))"
      by (rule Cons.IH)
    with p1 have "prefix logs (fst (snd (readonly_walk exclude_ext entries logs' st')))"
      by (rule prefix_order.trans)
    with entry step Inr show ?thesis by simp
  qed
qed

lemma full_files_prefix:
  "prefix logs (fst (snd (full_files root fs logs st)))"
proof (induction fs arbitrary: logs st)
  case Nil
  show ?case by simp
next
  case (Cons f fs)
  show ?case
  proof (cases "os_chmod (os_path_join root f) mode_0o777 st")
    case (Inl e)
    then show ?thesis by simp
  next
    case (Inr st')
    have "prefix (logs @ [''Set '' @ os_path_join root f @ '' to full permission.''])
            (fst (snd (full_files root fs
               (logs @ [''Set '' @ os_path_join root f @ '' to full permission.'']) st')))"
      by (rule Cons.IH)
    then have "prefix logs (fst (snd (full_files root fs
               (logs @ [''Set '' @ os_path_join root f @ '' to full permission.'']) st')))"
      by (rule append_prefixD)
    with Inr show ?thesis by (simp add: Let_def)
  qed
qed

lemma full_walk_prefix:
  "prefix logs (fst (snd (full_walk entries logs st)))"
proof (induction entries arbitrary: logs st)
  case Nil
  show ?case by simp
next
  case (Cons entry entries)
  obtain root ds fs where entry: "entry = (root, ds, fs)" by (cases entry) auto
  obtain r logs' st' where step: "full_files root fs logs st = (r, logs', st')"
    by (cases "full_files root fs logs st") auto
  have p1: "prefix logs logs'"
    using full_files_prefix[of logs root fs st] step by simp
  show ?case
  proof (cases r)
    case (Inl e)
    with entry step p1 show ?thesis by simp
  next
    case (Inr u)
    have "prefix logs' (fst (snd (full_walk entries logs' st')))"
      by (rule Cons.IH)
    with p1 have "prefix logs (fst (snd (full_walk entries logs' st')))"
      by (rule prefix_order.trans)
    with entry step Inr show ?thesis by simp
  qed
qed

lemma clone_or_update_repo_prefix:
  "prefix logs (fst (snd (clone_or_update_repo spawn str_of path_exists repo_url branch
                            commit_hash local_dir logs s)))"
  by (auto simp: clone_or_update_repo_def Let_def prefix_def
        split: prod.splits sum.splits option.splits if_splits)

text \<open>
  Claim C9.  After a call of \<open>clone_or_update_repo\<close>, \<open>set_permission_readonly\<close> or
  \<open>set_permission_full\<close> the log starts with the log before the call: entries are added
  at the end and none is removed or changed.  This holds also when the call ends with an
  exception.
\<close>

theorem logs_append_only:
  "prefix logs (fst (snd (clone_or_update_repo spawn str_of path_exists repo_url branch
                            commit_hash local_dir logs s)))
   \<and> prefix logs (fst (snd (set_permission_readonly local_dir exclude_ext logs st)))
   \<and> prefix logs (fst (snd (set_permission_full local_dir logs st)))"
  by (simp add: clone_or_update_repo_prefix set_permission_readonly_def
        set_permission_full_def readonly_walk_prefix full_walk_prefix)

theorem logs_append_only_witness:
  "prefix [''started''] (fst (snd (set_permission_readonly ''d'' ''.ipynb'' [''started''] sample_os)))
   \<and> fst (snd (set_permission_readonly ''d'' ''.ipynb'' [''started''] sample_os))
       = [''started'', ''Set d/a.txt to read-only.'']"
  using logs_append_only[of "[''started'']" "always_exit 0 [] []" "\<lambda>e. []" "\<lambda>p w. True"
          "[]" "[]" None "''d''" "\<lparr>world = (), issued = []\<rparr>" "''.ipynb''" sample_os]
  by (simp add: set_permission_readonly_def os_walk_def sample_os_def os_path_join_def
        startswith_def endswith_def suffix_to_prefix os_chmod_def)

section \<open>Properties of \<open>set_permission_readonly\<close>\<close>







section \<open>Properties of \<open>create_env_file\<close>\<close>

lemma file_write_other:
  "file_text (file_write p s st) q = (if q = p then Some (case file_text st p of None \<Rightarrow> s | Some t \<Rightarrow> t @ s) else file_text st q)"
  by (simp add: file_write_def)

lemma fold_write_text:
  "file_text st p = Some t \<Longrightarrow>
   file_text (fold (\<lambda>(key, val). file_write p (env_line key val)) env_config st) p
     = Some (t @ concat (map (\<lambda>(key, val). env_line key val) env_config))"
proof (induction env_config arbitrary: st t)
  case Nil
  then show ?case by simp
next
  case (Cons kv rest)
  obtain k v where kv: "kv = (k, v)" by (cases kv) auto
  have "file_text (file_write p (env_line k v) st) p = Some (t @ env_line k v)"
    using Cons.prems by (simp add: file_write_def)
  from Cons.IH[OF this] kv show ?case by simp
qed

lemma endswith_char:
  "endswith a [c] \<longleftrightarrow> a \<noteq> [] \<and> last a = c"
  by (cases a rule: rev_cases) (auto simp: endswith_def)

lemma env_file_path:
  "os_path_join local_dir ''.env'' =
     (if local_dir = [] \<or> last local_dir = CHR ''/'' then local_dir @ ''.env''
      else local_dir @ ''/.env'')"
  by (auto simp: os_path_join_def startswith_def endswith_char)

text \<open>
  Claim C7.  When \<open>open\<close> does not refuse the path, \<open>create_env_file\<close> returns and the
  file \<open>.env\<close> of the directory \<open>local_dir\<close> then holds, for each entry of the mapping in
  order, the key, the text \<open> = \<close>, a single quote, the value, a single quote and a newline,
  and nothing else: whatever the file held before is gone.  The path of the file is the
  directory, a slash unless the directory is empty or ends with one, and \<open>.env\<close>.
\<close>

theorem create_env_file_content:
  assumes "open_fault st (os_path_join local_dir ''.env'') = None"
  shows "fst (create_env_file local_dir env_config st) = Inr ()
       \<and> file_text (snd (create_env_file local_dir env_config st)) (os_path_join local_dir ''.env'')
           = Some (concat (map (\<lambda>(key, val). key @ '' = '' @ [CHR 0x27] @ val @ [CHR 0x27, CHR 0x0A])
                      env_config))
       \<and> os_path_join local_dir ''.env'' =
           (if local_dir = [] \<or> last local_dir = CHR ''/'' then local_dir @ ''.env''
            else local_dir @ ''/.env'')"
proof -
  let ?p = "os_path_join local_dir ''.env''"
  let ?st1 = "print_line (''Creating .env file at '' @ ?p) st"
  let ?st2 = "?st1\<lparr>file_text := (file_text ?st1)(?p \<mapsto> [])\<rparr>"
  have o: "open_w ?p ?st1 = Inr ?st2"
    using assms by (simp add: open_w_def print_line_def)
  have t: "file_text ?st2 ?p = Some []" by simp
  have "file_text (fold (\<lambda>(key, val). file_write ?p (env_line key val)) env_config ?st2) ?p
          = Some ([] @ concat (map (\<lambda>(key, val). env_line key val) env_config))"
    by (rule fold_write_text[OF t])
  then have "fst (create_env_file local_dir env_config st) = Inr ()
       \<and> file_text (snd (create_env_file local_dir env_config st)) ?p
           = Some (concat (map (\<lambda>(key, val). key @ '' = '' @ [CHR 0x27] @ val @ [CHR 0x27, CHR 0x0A])
                      env_config))"
    using o by (simp add: create_env_file_def Let_def env_line_def)
  then show ?thesis
    using env_file_path[of local_dir] by blast
qed

theorem create_env_file_content_witness:
  "file_text (snd (create_env_file ''D'' [(''KEY'', ''value'')]
        (sample_os\<lparr>file_text := [''D/.env'' \<mapsto> ''OLD = 1'']\<rparr>))) ''D/.env''
       = Some (''KEY = '' @ [CHR 0x27] @ ''value'' @ [CHR 0x27, CHR 0x0A])
   \<and> file_text (snd (create_env_file ''D'' [(''A'', ''1''), (''B'', ''x y'')] sample_os)) ''D/.env''
       = Some (''A = '' @ [CHR 0x27] @ ''1'' @ [CHR 0x27, CHR 0x0A]
               @ ''B = '' @ [CHR 0x27] @ ''x y'' @ [CHR 0x27, CHR 0x0A])"
proof -
  have p: "os_path_join ''D'' ''.env'' = ''D/.env''"
    by (simp add: os_path_join_def startswith_def endswith_def suffix_to_prefix)
  have h: "open_fault (sample_os\<lparr>file_text := [''D/.env'' \<mapsto> ''OLD = 1'']\<rparr>)
             (os_path_join ''D'' ''.env'') = None"
    by (simp add: sample_os_def)
  have h': "open_fault sample_os (os_path_join ''D'' ''.env'') = None"
    by (simp add: sample_os_def)
  have a: "file_text (snd (create_env_file ''D'' [(''KEY'', ''value'')]
               (sample_os\<lparr>file_text := [''D/.env'' \<mapsto> ''OLD = 1'']\<rparr>))) ''D/.env''
             = Some (''KEY = '' @ [CHR 0x27] @ ''value'' @ [CHR 0x27, CHR 0x0A])"
    using create_env_file_content[OF h, of "[(''KEY'', ''value'')]"] by (simp add: p)
  have b: "file_text (snd (create_env_file ''D'' [(''A'', ''1''), (''B'', ''x y'')] sample_os)) ''D/.env''
             = Some (''A = '' @ [CHR 0x27] @ ''1'' @ [CHR 0x27, CHR 0x0A]
                     @ ''B = '' @ [CHR 0x27] @ ''x y'' @ [CHR 0x27, CHR 0x0A])"
    using create_env_file_content[OF h', of "[(''A'', ''1''), (''B'', ''x y'')]"] by (simp add: p)
  show ?thesis
    using a b by simp
qed

section \<open>Properties of \<open>deploy_repo\<close>\<close>

text \<open>
  Claim C6, as amended.  What \<open>deploy_repo\<close> prints and returns, in every case.  When the
  request raises a \<open>RequestException\<close> it prints \<open>Error: \<close> with the message and returns
  normally.  When a response arrives and its body is JSON it prints
  \<open>Deployment successful!\<close> if the status code is 200 and \<open>Deployment failed!\<close> for every
  other status code, then the body.  When a response arrives and its body is not JSON,
  neither of the two is printed: the decoding error is printed after \<open>Error: \<close> if it is
  a \<open>RequestException\<close>, and leaves the function otherwise.
\<close>

theorem deploy_repo_report:
  "deploy_repo post dumps username server_url repo_url branch commit_hash local_dir exclude_ext st =
     (case post (server_url @ ''/deploy'')
             [(''username'', username), (''repo_url'', Some repo_url),
              (''branch'', Some branch), (''commit_hash'', commit_hash),
              (''local_dir'', Some local_dir), (''exclude_ext'', Some exclude_ext)] of
        Inl (RequestException msg) \<Rightarrow> (Inr (), st\<lparr>console := console st @ [''Error: '' @ msg]\<rparr>)
      | Inl e \<Rightarrow> (Inl e, st)
      | Inr response \<Rightarrow>
          (case json_of response of
             Inr response_data \<Rightarrow>
               (Inr (), st\<lparr>console := console st @
                  [if status_code response = 200 then ''Deployment successful!''
                   else ''Deployment failed!'', dumps response_data]\<rparr>)
           | Inl (RequestException msg) \<Rightarrow>
               (Inr (), st\<lparr>console := console st @ [''Error: '' @ msg]\<rparr>)
           | Inl e \<Rightarrow> (Inl e, st)))"
  by (simp add: deploy_repo_def Let_def print_line_def split: sum.splits exn.splits)

theorem deploy_repo_report_witness:
  "deploy_repo (\<lambda>url payload. Inr (Response 200 (Inr ''ok''))) (\<lambda>d. d)
      (Some ''deploy'') ''http://localhost:9000'' ''https://example.org/r.git'' ''main'' None
      ''./test'' ''.ipynb'' sample_os
   = (Inr (), sample_os\<lparr>console := [''Deployment successful!'', ''ok'']\<rparr>)
 \<and> deploy_repo (\<lambda>url payload. Inr (Response 201 (Inr ''created''))) (\<lambda>d. d)
      (Some ''deploy'') ''http://localhost:9000'' ''https://example.org/r.git'' ''main'' None
      ''./test'' ''.ipynb'' sample_os
   = (Inr (), sample_os\<lparr>console := [''Deployment failed!'', ''created'']\<rparr>)
 \<and> deploy_repo (\<lambda>url payload. Inl (RequestException ''Connection refused'')) (\<lambda>d. d)
      (Some ''deploy'') ''http://localhost:9000'' ''https://example.org/r.git'' ''main'' None
      ''./test'' ''.ipynb'' sample_os
   = (Inr (), sample_os\<lparr>console := [''Error: Connection refused'']\<rparr>)"
  using deploy_repo_report[of "\<lambda>url payload. Inr (Response 200 (Inr ''ok''))" "\<lambda>d. d"
      "Some ''deploy''" "''http://localhost:9000''" "''https://example.org/r.git''" "''main''" None
      "''./test''" "''.ipynb''" sample_os]
    deploy_repo_report[of "\<lambda>url payload. Inr (Response 201 (Inr ''created''))" "\<lambda>d. d"
      "Some ''deploy''" "''http://localhost:9000''" "''https://example.org/r.git''" "''main''" None
      "''./test''" "''.ipynb''" sample_os]
    deploy_repo_report[of "\<lambda>url payload. Inl (RequestException ''Connection refused'')" "\<lambda>d. d"
      "Some ''deploy''" "''http://localhost:9000''" "''https://example.org/r.git''" "''main''" None
      "''./test''" "''.ipynb''" sample_os]
  by (simp add: sample_os_def)

text \<open>
  Claim C6 as stated says that on every response with status code 200 the success line is
  printed.  \<open>response.json()\<close> runs before the status code is looked at: on a response
  with status code 200 and a body that is not JSON the function prints nothing when the
  decoding error is a plain \<open>ValueError\<close>, and only the error line when it is a
  \<open>RequestException\<close>.
\<close>

theorem deploy_repo_bad_body_counterexample:
  "status_code (Response 200 (Inl (ValueError ''Expecting value'')) :: string response) = 200
   \<and> deploy_repo (\<lambda>url payload. Inr (Response 200 (Inl (ValueError ''Expecting value''))))
      (\<lambda>d. d) (Some ''deploy'') ''http://localhost:9000'' ''https://example.org/r.git'' ''main'' None
      ''./test'' ''.ipynb'' sample_os
     = (Inl (ValueError ''Expecting value''), sample_os)
   \<and> ''Deployment successful!'' \<notin> set (console sample_os)
   \<and> deploy_repo (\<lambda>url payload. Inr (Response 200 (Inl (RequestException ''Expecting value''))))
      (\<lambda>d. d) (Some ''deploy'') ''http://localhost:9000'' ''https://example.org/r.git'' ''main'' None
      ''./test'' ''.ipynb'' sample_os
     = (Inr (), sample_os\<lparr>console := [''Error: Expecting value'']\<rparr>)"
  by (simp add: deploy_repo_def Let_def print_line_def sample_os_def)

end
